theory Spec2Isabelle
  imports Complex_Main "HOL-Library.Sublist"
begin

section \<open>Python values and library functions used by bot.py\<close>

text \<open>
  Strings are modelled as \<open>string\<close> (lists of 8-bit characters). The library functions
  below are the behaviour of the Python builtins the program calls on ASCII strings; the
  non-ASCII digits and spaces that Python's \<open>int\<close> and \<open>float\<close> also accept are outside
  the model, and a statement about every string carries the hypothesis that the string
  is ASCII.
\<close>

datatype py_error =
    ValueError
  | TypeError
  | AttributeError
  | OverflowError
  | RequestException
  | JSONDecodeError
  | HTTPError "nat option"
  | SMTPError

text \<open>The white space that \<open>int\<close> and \<open>float\<close> skip at both ends of an ASCII string:
  tab, newline, vertical tab, form feed, carriage return (9 to 13) and the space (32).
  The separators 0x1C..0x1F are not skipped.\<close>

definition is_space :: "char \<Rightarrow> bool" where
  "is_space c = (let n = (of_char c :: nat) in (9 \<le> n \<and> n \<le> 13) \<or> n = 32)"

definition is_digit :: "char \<Rightarrow> bool" where
  "is_digit c = (let n = (of_char c :: nat) in 48 \<le> n \<and> n \<le> 57)"

definition digit_val :: "char \<Rightarrow> nat" where
  "digit_val c = of_char c - 48"

text \<open>Leading and trailing white space removed, as \<open>int\<close> and \<open>float\<close> do before they
  read the number.\<close>

definition strip :: "string \<Rightarrow> string" where
  "strip s = rev (dropWhile is_space (rev (dropWhile is_space s)))"

text \<open>The value of a string of decimal digits, most significant digit first.\<close>

definition digits_val :: "string \<Rightarrow> nat" where
  "digits_val ds = foldl (\<lambda>acc c. 10 * acc + digit_val c) 0 ds"

text \<open>Underscores in a numeric literal: each one stands between two digits. The flag
  says whether the previous character was a digit.\<close>

fun underscores_ok :: "bool \<Rightarrow> string \<Rightarrow> bool" where
  "underscores_ok p [] = True"
| "underscores_ok p (c # cs) =
     (if c = CHR ''_''
      then p \<and> (case cs of [] \<Rightarrow> False | d # _ \<Rightarrow> is_digit d) \<and> underscores_ok False cs
      else underscores_ok (is_digit c) cs)"

definition drop_underscores :: "string \<Rightarrow> string" where
  "drop_underscores s = filter (\<lambda>c. c \<noteq> CHR ''_'') s"

text \<open>An optional sign in front: the sign (True for minus) and what follows it.\<close>

fun split_sign :: "string \<Rightarrow> bool \<times> string" where
  "split_sign [] = (False, [])"
| "split_sign (c # cs) =
     (if c = CHR ''-'' then (True, cs)
      else if c = CHR ''+'' then (False, cs)
      else (False, c # cs))"

text \<open>The interpreter's default limit on the number of digits of a string converted to
  an int (\<open>sys.int_info.default_max_str_digits\<close>).\<close>

definition int_max_str_digits :: nat where
  "int_max_str_digits = 4300"

text \<open>\<open>int(s)\<close> for a string, base 10: white space stripped, an optional sign, then
  digits with single underscores between them, at most \<open>int_max_str_digits\<close> digits
  (leading zeros count, underscores do not); anything else raises ValueError.\<close>

definition py_int :: "string \<Rightarrow> py_error + int" where
  "py_int s =
     (let (neg, body) = split_sign (strip s) in
      if body \<noteq> [] \<and> list_all (\<lambda>c. is_digit c \<or> c = CHR ''_'') body \<and> underscores_ok False body
         \<and> length (drop_underscores body) \<le> int_max_str_digits
      then (let v = int (digits_val (drop_underscores body)) in Inr (if neg then - v else v))
      else Inl ValueError)"

text \<open>\<open>s.split(sep)\<close> for a one-character separator: cut at every occurrence.\<close>

fun split_on :: "char \<Rightarrow> string \<Rightarrow> string list" where
  "split_on sep [] = [[]]"
| "split_on sep (c # cs) =
     (if c = sep then [] # split_on sep cs
      else (case split_on sep cs of
              [] \<Rightarrow> [[c]]
            | p # ps \<Rightarrow> (c # p) # ps))"

text \<open>\<open>str.upper()\<close> on ASCII.\<close>

definition upper_char :: "char \<Rightarrow> char" where
  "upper_char c =
     (let n = (of_char c :: nat) in if 97 \<le> n \<and> n \<le> 122 then char_of (n - 32) else c)"

definition upper :: "string \<Rightarrow> string" where
  "upper s = map upper_char s"

text \<open>\<open>s.rstrip('/')\<close>: every trailing slash removed.\<close>

definition rstrip_slash :: "string \<Rightarrow> string" where
  "rstrip_slash s = rev (dropWhile (\<lambda>c. c = CHR ''/'') (rev s))"

section \<open>Configuration\<close>

record config =
  ALPACA_KEY_ID :: string
  ALPACA_SECRET_KEY :: string
  ALPACA_BASE_URL :: string
  TO_EMAIL :: string
  FROM_EMAIL :: string
  SMTP_HOST :: string
  SMTP_PORT :: int
  SMTP_USER :: string
  SMTP_PASS :: string
  SYMBOL :: string
  MAX_TRADES_PER_DAY :: int
  WINDOW_START_UTC :: string
  WINDOW_END_UTC :: string
  MODE :: string

text \<open>The fields of \<open>datetime\<close> that the program reads.\<close>

record datetime =
  hour :: nat
  minute :: nat

section \<open>Helpers\<close>

text \<open>\<open>h, m = hhmm.split(":")\<close> raises ValueError unless there are exactly two parts;
  then \<open>int(h)\<close> is evaluated before \<open>int(m)\<close>.\<close>

definition hhmm_to_minutes :: "string \<Rightarrow> py_error + int" where
  "hhmm_to_minutes hhmm =
     (case split_on CHR '':'' hhmm of
        [h, m] \<Rightarrow>
          (case py_int h of
             Inl e \<Rightarrow> Inl e
           | Inr hv \<Rightarrow>
               (case py_int m of
                  Inl e \<Rightarrow> Inl e
                | Inr mv \<Rightarrow> Inr (hv * 60 + mv)))
      | _ \<Rightarrow> Inl ValueError)"

text \<open>The chained comparison \<open>a <= t <= b\<close> evaluates \<open>a\<close>, then \<open>t\<close>, and evaluates
  \<open>b\<close> only when \<open>a <= t\<close> holds.\<close>

definition in_window_utc :: "config \<Rightarrow> datetime \<Rightarrow> py_error + bool" where
  "in_window_utc cfg dt =
     (let t = int (hour dt) * 60 + int (minute dt) in
      case hhmm_to_minutes (WINDOW_START_UTC cfg) of
        Inl e \<Rightarrow> Inl e
      | Inr start \<Rightarrow>
          if start \<le> t
          then (case hhmm_to_minutes (WINDOW_END_UTC cfg) of
                  Inl e \<Rightarrow> Inl e
                | Inr end \<Rightarrow> Inr (t \<le> end))
          else Inr False)"

section \<open>Floating-point numbers\<close>

text \<open>
  A Python \<open>float\<close> is an IEEE 754 binary64 value: a rational number, an infinity or
  NaN (the sign of zero plays no part in this program). \<open>float(s)\<close> yields the double
  nearest to the decimal numeral, ties to even; that rounding is computed here on
  rationals.
\<close>

datatype pyfloat = Finite rat | Pos_inf | Neg_inf | NaN

fun bit_length :: "nat \<Rightarrow> nat" where
  "bit_length n = (if n = 0 then 0 else Suc (bit_length (n div 2)))"

definition pow2 :: "int \<Rightarrow> rat" where
  "pow2 e = (if 0 \<le> e then 2 ^ nat e else 1 / 2 ^ nat (- e))"

definition pow10 :: "int \<Rightarrow> rat" where
  "pow10 e = (if 0 \<le> e then 10 ^ nat e else 1 / 10 ^ nat (- e))"

text \<open>For \<open>a > 0\<close>: the integer \<open>e\<close> with \<open>2^e \<le> a < 2^(e+1)\<close>.\<close>

definition floor_log2 :: "rat \<Rightarrow> int" where
  "floor_log2 a =
     (case quotient_of a of (n, d) \<Rightarrow>
        (let k = int (bit_length (nat n)) - int (bit_length (nat d))
         in if pow2 k \<le> a then k else k - 1))"

definition round_half_even :: "rat \<Rightarrow> int" where
  "round_half_even r =
     (let f = \<lfloor>r\<rfloor>; d = r - of_int f
      in if d < 1 / 2 then f else if 1 / 2 < d then f + 1 else if even f then f else f + 1)"

text \<open>Round to binary64: 53 significant bits, least exponent -1074, overflow at \<open>2^1024\<close>.
  The result is the rounded value, or None on overflow.\<close>

definition round_double :: "rat \<Rightarrow> rat option" where
  "round_double q =
     (if q = 0 then Some 0
      else (let a = \<bar>q\<bar>;
                p = max (floor_log2 a - 52) (- 1074);
                v = of_int (round_half_even (a / pow2 p)) * pow2 p
            in if pow2 1024 \<le> v then None else Some (if q < 0 then - v else v)))"

definition lower_char :: "char \<Rightarrow> char" where
  "lower_char c =
     (let n = (of_char c :: nat) in if 65 \<le> n \<and> n \<le> 90 then char_of (n + 32) else c)"

definition lower :: "string \<Rightarrow> string" where
  "lower s = map lower_char s"

text \<open>The exponent part of a decimal numeral: nothing, or \<open>e\<close>/\<open>E\<close>, an optional sign
  and at least one digit.\<close>

definition parse_exponent :: "string \<Rightarrow> int option" where
  "parse_exponent r =
     (case r of
        [] \<Rightarrow> Some 0
      | c # t \<Rightarrow>
          if c = CHR ''e'' \<or> c = CHR ''E''
          then (case split_sign t of (neg, ds) \<Rightarrow>
                  if ds \<noteq> [] \<and> list_all is_digit ds
                  then Some (if neg then - int (digits_val ds) else int (digits_val ds))
                  else None)
          else None)"

text \<open>An unsigned decimal numeral: digits, an optional point and digits, with a digit on
  at least one side of the point, then the exponent part.\<close>

definition parse_decimal :: "string \<Rightarrow> rat option" where
  "parse_decimal s =
     (let ip = takeWhile is_digit s;
          r1 = dropWhile is_digit s;
          (fp, r2) = (case r1 of
                        [] \<Rightarrow> ([], r1)
                      | c # t \<Rightarrow> if c = CHR ''.''
                                 then (takeWhile is_digit t, dropWhile is_digit t)
                                 else ([], r1))
      in if ip = [] \<and> fp = [] then None
         else (case parse_exponent r2 of
                 None \<Rightarrow> None
               | Some ex \<Rightarrow> Some (of_nat (digits_val (ip @ fp)) * pow10 (ex - int (length fp)))))"

text \<open>\<open>float(s)\<close> for a string: white space stripped, underscores only between digits,
  an optional sign, then \<open>inf\<close>, \<open>infinity\<close> or \<open>nan\<close> in any case, or a decimal numeral.
  A numeral too large for a double gives an infinity, not an error.\<close>

definition py_float_str :: "string \<Rightarrow> py_error + pyfloat" where
  "py_float_str s =
     (let t = strip s in
      if \<not> underscores_ok False t then Inl ValueError
      else (case split_sign (drop_underscores t) of (neg, body) \<Rightarrow>
              if lower body = ''inf'' \<or> lower body = ''infinity''
              then Inr (if neg then Neg_inf else Pos_inf)
              else if lower body = ''nan'' then Inr NaN
              else (case parse_decimal body of
                      None \<Rightarrow> Inl ValueError
                    | Some q \<Rightarrow>
                        (case round_double q of
                           None \<Rightarrow> Inr (if neg then Neg_inf else Pos_inf)
                         | Some v \<Rightarrow> Inr (Finite (if neg then - v else v))))))"

text \<open>\<open>int(x)\<close> for a float: truncation toward zero; NaN and the infinities raise.\<close>

definition py_int_of_float :: "pyfloat \<Rightarrow> py_error + int" where
  "py_int_of_float x =
     (case x of
        Finite r \<Rightarrow> Inr (if 0 \<le> r then \<lfloor>r\<rfloor> else \<lceil>r\<rceil>)
      | NaN \<Rightarrow> Inl ValueError
      | _ \<Rightarrow> Inl OverflowError)"

section \<open>Decoded JSON values\<close>

text \<open>The value \<open>r.json()\<close> returns. An object is the list of its items; a key is looked
  up with \<open>map_of\<close>.\<close>

datatype json =
    JNull
  | JBool bool
  | JInt int
  | JFloat pyfloat
  | JStr string
  | JArr "json list"
  | JObj "(string \<times> json) list"

text \<open>\<open>float(v)\<close> for a decoded JSON value: a string is parsed, an int is rounded (and
  raises OverflowError when too large), a bool is 0 or 1, a float is itself; \<open>None\<close>,
  lists and dicts raise TypeError.\<close>

definition py_float :: "json \<Rightarrow> py_error + pyfloat" where
  "py_float v =
     (case v of
        JStr s \<Rightarrow> py_float_str s
      | JInt n \<Rightarrow> (case round_double (of_int n) of
                    None \<Rightarrow> Inl OverflowError
                  | Some x \<Rightarrow> Inr (Finite x))
      | JBool b \<Rightarrow> Inr (Finite (if b then 1 else 0))
      | JFloat x \<Rightarrow> Inr x
      | _ \<Rightarrow> Inl TypeError)"

section \<open>Effects\<close>

text \<open>
  What a run does to the outside world, in order. \<open>Send_email_called\<close> marks a call of
  \<open>send_email\<close> with its arguments (an alert attempted), before the function checks the
  mail configuration; the other events are the output and network operations themselves.
\<close>

record email_message =
  msg_subject :: string
  msg_from :: string
  msg_to :: string
  msg_content :: string

datatype event =
    Stdout string
  | Stderr string
  | Http_get string "(string \<times> string) list"
  | Send_email_called string string
  | Smtp_connect string int
  | Smtp_starttls
  | Smtp_login string string
  | Smtp_send_message email_message
  | Smtp_close

text \<open>An effectful computation: the events it caused, and the exception it raised
  (\<open>Inl\<close>) or the value it returned (\<open>Inr\<close>).\<close>

type_synonym 'a io = "event list \<times> (py_error + 'a)"

definition io_bind :: "'a io \<Rightarrow> ('a \<Rightarrow> 'b io) \<Rightarrow> 'b io" where
  "io_bind m f =
     (case m of
        (evs, Inl e) \<Rightarrow> (evs, Inl e)
      | (evs, Inr x) \<Rightarrow> (case f x of (evs', r) \<Rightarrow> (evs @ evs', r)))"

definition print_out :: "string \<Rightarrow> unit io" where
  "print_out s = ([Stdout s], Inr ())"

definition print_err :: "string \<Rightarrow> unit io" where
  "print_err s = ([Stderr s], Inr ())"

text \<open>What the brokerage answers to the one GET of a run: \<open>requests.get\<close> raises (no
  connection, timeout, ...), or there is a response with a status code and a body that
  decodes as JSON or does not.\<close>

datatype http_outcome =
    Request_fails
  | Response nat "json option"

text \<open>What happens when a message is built and sent: every step succeeds, or the named
  step raises.\<close>

datatype mail_outcome =
    Mail_ok
  | Fails_building
  | Fails_connecting
  | Fails_starttls
  | Fails_login
  | Fails_sending

section \<open>Position fetcher\<close>

definition alpaca_headers :: "config \<Rightarrow> (string \<times> string) list" where
  "alpaca_headers cfg =
     [(''APCA-API-KEY-ID'', ALPACA_KEY_ID cfg),
      (''APCA-API-SECRET-KEY'', ALPACA_SECRET_KEY cfg)]"

text \<open>\<open>r.raise_for_status()\<close> raises HTTPError, carrying the response, for the status
  codes 400 to 599 and for no other; \<open>r.json()\<close> raises when the body is not JSON.\<close>

definition alpaca_get :: "config \<Rightarrow> string \<Rightarrow> http_outcome \<Rightarrow> json io" where
  "alpaca_get cfg path http =
     ([Http_get (rstrip_slash (ALPACA_BASE_URL cfg) @ path) (alpaca_headers cfg)],
      (case http of
         Request_fails \<Rightarrow> Inl RequestException
       | Response status body \<Rightarrow>
           if 400 \<le> status \<and> status < 600 then Inl (HTTPError (Some status))
           else (case body of
                   None \<Rightarrow> Inl JSONDecodeError
                 | Some j \<Rightarrow> Inr j)))"

text \<open>\<open>pos.get("qty", "0")\<close> needs a dict (anything else has no \<open>get\<close>). The handler
  catches HTTPError only, and returns 0 when the error carries a response of status 404.\<close>

definition get_open_position_qty :: "config \<Rightarrow> string \<Rightarrow> http_outcome \<Rightarrow> int io" where
  "get_open_position_qty cfg symbol http =
     (case alpaca_get cfg (''/v2/positions/'' @ symbol) http of
        (evs, Inr pos) \<Rightarrow>
          (evs,
           (case pos of
              JObj items \<Rightarrow>
                (case py_float (case map_of items ''qty'' of None \<Rightarrow> JStr ''0'' | Some v \<Rightarrow> v) of
                   Inl e \<Rightarrow> Inl e
                 | Inr x \<Rightarrow> py_int_of_float x)
            | _ \<Rightarrow> Inl AttributeError))
      | (evs, Inl e) \<Rightarrow>
          (evs,
           (case e of
              HTTPError response \<Rightarrow> if response = Some 404 then Inr 0 else Inl e
            | _ \<Rightarrow> Inl e)))"

section \<open>Notifier\<close>

definition send_email :: "config \<Rightarrow> mail_outcome \<Rightarrow> string \<Rightarrow> string \<Rightarrow> unit io" where
  "send_email cfg mail subject body =
     io_bind ([Send_email_called subject body], Inr ()) (\<lambda>_.
       if \<not> (TO_EMAIL cfg \<noteq> [] \<and> FROM_EMAIL cfg \<noteq> [] \<and> SMTP_HOST cfg \<noteq> []
              \<and> SMTP_USER cfg \<noteq> [] \<and> SMTP_PASS cfg \<noteq> [])
       then print_err ''Missing email/SMTP env vars; cannot send.''
       else
         (let msg = \<lparr>msg_subject = subject, msg_from = FROM_EMAIL cfg,
                     msg_to = TO_EMAIL cfg, msg_content = body\<rparr>;
              connect = Smtp_connect (SMTP_HOST cfg) (SMTP_PORT cfg);
              login = Smtp_login (SMTP_USER cfg) (SMTP_PASS cfg)
          in case mail of
               Fails_building \<Rightarrow> ([], Inl ValueError)
             | Fails_connecting \<Rightarrow> ([connect], Inl SMTPError)
             | Fails_starttls \<Rightarrow> ([connect, Smtp_starttls, Smtp_close], Inl SMTPError)
             | Fails_login \<Rightarrow> ([connect, Smtp_starttls, login, Smtp_close], Inl SMTPError)
             | Fails_sending \<Rightarrow>
                 ([connect, Smtp_starttls, login, Smtp_send_message msg, Smtp_close],
                  Inl SMTPError)
             | Mail_ok \<Rightarrow>
                 ([connect, Smtp_starttls, login, Smtp_send_message msg, Smtp_close],
                  Inr ())))"

section \<open>Alert texts\<close>

text \<open>\<open>str(n)\<close> for an int, as the f-strings format the quantity.\<close>

fun str_nat :: "nat \<Rightarrow> string" where
  "str_nat n =
     (if n < 10 then [char_of (48 + n)]
      else str_nat (n div 10) @ [char_of (48 + n mod 10)])"

definition str_int :: "int \<Rightarrow> string" where
  "str_int i = (if i < 0 then CHR ''-'' # str_nat (nat (- i)) else str_nat (nat i))"

text \<open>The dash of the two subjects, U+2014, as its three UTF-8 bytes.\<close>

definition em_dash :: string where
  "em_dash = [CHR 0xE2, CHR 0x80, CHR 0x94]"

definition buy_alert :: "config \<Rightarrow> int \<Rightarrow> string \<times> string" where
  "buy_alert cfg qty =
     (''BUY SPY '' @ em_dash @ '' ACTION REQUIRED'',
      ''BUY '' @ SYMBOL cfg @ '' NOW\<newline>''
      @ ''Qty: '' @ str_int qty @ ''\<newline>''
      @ ''Order: Market\<newline>''
      @ ''Max Risk: $50 (paper)\<newline>''
      @ ''\<newline>''
      @ ''Open Alpaca and BUY within 5 minutes.\<newline>'')"

definition sell_alert :: "config \<Rightarrow> int \<Rightarrow> string \<Rightarrow> string \<times> string" where
  "sell_alert cfg qty reason =
     (''SELL SPY '' @ em_dash @ '' ACTION REQUIRED'',
      ''SELL '' @ SYMBOL cfg @ '' NOW\<newline>''
      @ ''Qty: '' @ str_int qty @ ''\<newline>''
      @ ''Reason: '' @ reason @ ''\<newline>''
      @ ''\<newline>''
      @ ''Open Alpaca and SELL immediately.\<newline>'')"

section \<open>Decision logic\<close>

definition decide_and_notify ::
  "config \<Rightarrow> datetime \<Rightarrow> http_outcome \<Rightarrow> mail_outcome \<Rightarrow> unit io" where
  "decide_and_notify cfg dt http mail =
     (case in_window_utc cfg dt of
        Inl e \<Rightarrow> ([], Inl e)
      | Inr inside \<Rightarrow>
          if \<not> inside then print_out ''Outside window; exiting.''
          else
            io_bind (get_open_position_qty cfg (SYMBOL cfg) http) (\<lambda>qty_open.
              if upper (MODE cfg) = ''DRY_RUN'' then
                (if qty_open = 0 \<and> minute dt = 40 then
                   (case buy_alert cfg 1 of (subj, body) \<Rightarrow>
                      io_bind (send_email cfg mail subj body) (\<lambda>_.
                        print_out ''Sent DRY_RUN BUY.''))
                 else if qty_open > 0 \<and> minute dt = 55 then
                   (case sell_alert cfg qty_open ''DRY_RUN exit'' of (subj, body) \<Rightarrow>
                      io_bind (send_email cfg mail subj body) (\<lambda>_.
                        print_out ''Sent DRY_RUN SELL.''))
                 else print_out ''DRY_RUN: no message this minute.'')
              else print_out ''LIVE: strategy not enabled; no alerts.''))"

section \<open>The module: configuration load, then the run\<close>




text \<open>The alerts a trace attempted: the arguments of each call of \<open>send_email\<close>.\<close>

fun email_attempts :: "event list \<Rightarrow> (string \<times> string) list" where
  "email_attempts [] = []"
| "email_attempts (Send_email_called subj body # evs) = (subj, body) # email_attempts evs"
| "email_attempts (_ # evs) = email_attempts evs"

text \<open>Whether an event is an operation of a mail session.\<close>

fun is_smtp :: "event \<Rightarrow> bool" where
  "is_smtp (Smtp_connect _ _) = True"
| "is_smtp Smtp_starttls = True"
| "is_smtp (Smtp_login _ _) = True"
| "is_smtp (Smtp_send_message _) = True"
| "is_smtp Smtp_close = True"
| "is_smtp _ = False"

section \<open>Notions used in the statements\<close>

text \<open>A non-empty string of ASCII decimal digits, no longer than \<open>int\<close> converts.\<close>

definition digit_string :: "string \<Rightarrow> bool" where
  "digit_string s = (s \<noteq> [] \<and> list_all is_digit s \<and> length s \<le> int_max_str_digits)"


text \<open>The configuration of a run with no variable set: every default of the module.\<close>

definition default_config :: config where
  "default_config =
     \<lparr>ALPACA_KEY_ID = [], ALPACA_SECRET_KEY = [],
      ALPACA_BASE_URL = ''https://paper-api.alpaca.markets'',
      TO_EMAIL = [], FROM_EMAIL = [], SMTP_HOST = [], SMTP_PORT = 587,
      SMTP_USER = [], SMTP_PASS = [], SYMBOL = ''SPY'', MAX_TRADES_PER_DAY = 1,
      WINDOW_START_UTC = ''14:35'', WINDOW_END_UTC = ''16:00'', MODE = ''DRY_RUN''\<rparr>"

declare str_nat.simps [simp del] bit_length.simps [simp del]

declare int_max_str_digits_def [simp]

section \<open>Facts about the parsing functions\<close>

lemma digit_not_space: "is_digit c \<Longrightarrow> \<not> is_space c"
  by (simp add: is_digit_def is_space_def Let_def)

lemma digit_not_special:
  "is_digit c \<Longrightarrow> c \<noteq> CHR ''_'' \<and> c \<noteq> CHR ''-'' \<and> c \<noteq> CHR ''+'' \<and> c \<noteq> CHR '':''"
  by (auto simp add: is_digit_def Let_def)

lemma strip_digits:
  assumes "s \<noteq> []" "list_all is_digit s"
  shows "strip s = s"
proof -
  from assms obtain c cs where s: "s = c # cs" by (cases s) auto
  from assms s have c: "\<not> is_space c" by (simp add: digit_not_space)
  from assms have "rev s \<noteq> []" by simp
  then obtain x xs where r: "rev s = x # xs" by (cases "rev s") auto
  then have "x \<in> set s" by (metis list.set_intros(1) set_rev)
  with assms have x: "\<not> is_space x" by (auto simp: list_all_iff digit_not_space)
  have "dropWhile is_space s = s" using s c by simp
  moreover have "dropWhile is_space (rev s) = rev s" using r x by simp
  ultimately show "strip s = s" by (simp add: strip_def)
qed

lemma split_sign_digits: "list_all is_digit s \<Longrightarrow> split_sign s = (False, s)"
  by (cases s) (auto dest: digit_not_special)

lemma underscores_ok_digits: "list_all is_digit s \<Longrightarrow> underscores_ok p s"
  by (induction s arbitrary: p) (auto dest: digit_not_special)

lemma drop_underscores_digits: "list_all is_digit s \<Longrightarrow> drop_underscores s = s"
  by (induction s) (auto simp: drop_underscores_def dest: digit_not_special)

lemma py_int_digits:
  assumes "s \<noteq> []" "list_all is_digit s"
  shows "py_int s =
           (if length s \<le> int_max_str_digits then Inr (int (digits_val s)) else Inl ValueError)"
proof -
  have "list_all (\<lambda>c. is_digit c \<or> c = CHR ''_'') s"
    using assms(2) by (auto simp: list_all_iff)
  then show ?thesis
    using assms
    by (simp add: py_int_def strip_digits split_sign_digits underscores_ok_digits
        drop_underscores_digits)
qed

lemma py_int_digit_string: "digit_string s \<Longrightarrow> py_int s = Inr (int (digits_val s))"
  by (simp add: py_int_digits digit_string_def)

lemma split_on_no_sep: "sep \<notin> set s \<Longrightarrow> split_on sep s = [s]"
  by (induction s) auto

lemma split_on_one_sep:
  "sep \<notin> set h \<Longrightarrow> sep \<notin> set m \<Longrightarrow> split_on sep (h @ sep # m) = [h, m]"
  by (induction h) (auto simp: split_on_no_sep)

lemma colon_not_in_digits: "list_all is_digit s \<Longrightarrow> CHR '':'' \<notin> set s"
  by (auto simp: list_all_iff dest: digit_not_special)

lemma hhmm_to_minutes_digits:
  assumes "digit_string h" "digit_string m"
  shows "hhmm_to_minutes (h @ CHR '':'' # m) = Inr (int (digits_val h) * 60 + int (digits_val m))"
proof -
  have "split_on CHR '':'' (h @ CHR '':'' # m) = [h, m]"
    using assms by (intro split_on_one_sep colon_not_in_digits) (simp_all add: digit_string_def)
  then show ?thesis
    using assms by (simp add: hhmm_to_minutes_def py_int_digit_string)
qed

section \<open>Window gate\<close>

text \<open>
  Claim C1. For every timestamp and every pair of boundaries of the form
  digits, colon, digits (each field within the 4300 digits that \<open>int\<close> converts, as any
  "HH:MM" is), each boundary is converted to \<open>H * 60 + M\<close> minutes and
  \<open>in_window_utc\<close> returns, without raising, whether the minute of the day
  \<open>hour * 60 + minute\<close> lies between the two, both ends included.
\<close>

theorem in_window_utc_iff:
  assumes "digit_string h1" "digit_string m1" "digit_string h2" "digit_string m2"
    and "WINDOW_START_UTC cfg = h1 @ '':'' @ m1"
    and "WINDOW_END_UTC cfg = h2 @ '':'' @ m2"
  shows "hhmm_to_minutes (WINDOW_START_UTC cfg) = Inr (int (digits_val h1) * 60 + int (digits_val m1))
       \<and> hhmm_to_minutes (WINDOW_END_UTC cfg) = Inr (int (digits_val h2) * 60 + int (digits_val m2))
       \<and> in_window_utc cfg dt =
           Inr (int (digits_val h1) * 60 + int (digits_val m1) \<le> int (hour dt) * 60 + int (minute dt)
                \<and> int (hour dt) * 60 + int (minute dt) \<le> int (digits_val h2) * 60 + int (digits_val m2))"
  using assms by (simp add: in_window_utc_def hhmm_to_minutes_digits Let_def)

theorem in_window_utc_iff_witness:
  "digit_string ''14'' \<and> digit_string ''35'' \<and> digit_string ''16'' \<and> digit_string ''00''
   \<and> WINDOW_START_UTC default_config = ''14'' @ '':'' @ ''35''
   \<and> WINDOW_END_UTC default_config = ''16'' @ '':'' @ ''00''
   \<and> hhmm_to_minutes (WINDOW_START_UTC default_config) = Inr 875
   \<and> hhmm_to_minutes (WINDOW_END_UTC default_config) = Inr 960
   \<and> in_window_utc default_config \<lparr>hour = 16, minute = 0\<rparr> = Inr True
   \<and> in_window_utc default_config \<lparr>hour = 16, minute = 1\<rparr> = Inr False
   \<and> in_window_utc default_config \<lparr>hour = 14, minute = 35\<rparr> = Inr True
   \<and> in_window_utc default_config \<lparr>hour = 14, minute = 34\<rparr> = Inr False"
proof -
  have d: "digit_string ''14''" "digit_string ''35''" "digit_string ''16''" "digit_string ''00''"
    by (simp_all add: digit_string_def is_digit_def)
  have s: "WINDOW_START_UTC default_config = ''14'' @ '':'' @ ''35''"
    and e: "WINDOW_END_UTC default_config = ''16'' @ '':'' @ ''00''"
    by (simp_all add: default_config_def)
  have v: "digits_val ''14'' = 14" "digits_val ''35'' = 35" "digits_val ''16'' = 16"
    "digits_val ''00'' = 0"
    by (simp_all add: digits_val_def digit_val_def)
  note w = in_window_utc_iff [OF d s e]
  show ?thesis
    using d s e w [of "\<lparr>hour = 16, minute = 0\<rparr>"] w [of "\<lparr>hour = 16, minute = 1\<rparr>"]
      w [of "\<lparr>hour = 14, minute = 35\<rparr>"] w [of "\<lparr>hour = 14, minute = 34\<rparr>"]
    by (simp add: v)
qed

section \<open>Position fetcher: status 404\<close>

text \<open>
  Claim C2. For every response of status 404, whatever its body,
  \<open>get_open_position_qty\<close> performs the one GET and returns exactly 0; it does not raise.
\<close>

theorem get_open_position_qty_404:
  "get_open_position_qty cfg symbol (Response 404 body) =
     ([Http_get (rstrip_slash (ALPACA_BASE_URL cfg) @ ''/v2/positions/'' @ symbol)
         (alpaca_headers cfg)], Inr 0)"
  by (simp add: get_open_position_qty_def alpaca_get_def)

section \<open>Notifier: incomplete mail configuration\<close>

text \<open>
  Claim C4. When any of the five required strings (recipient, sender, mail host,
  mail user, mail password) is empty, a call of \<open>send_email\<close> writes the diagnostic to the
  error stream and returns normally: nothing else happens, and in particular no
  operation of a mail session.
\<close>

theorem send_email_skipped:
  assumes "TO_EMAIL cfg = [] \<or> FROM_EMAIL cfg = [] \<or> SMTP_HOST cfg = []
           \<or> SMTP_USER cfg = [] \<or> SMTP_PASS cfg = []"
  shows "send_email cfg mail subject body =
           ([Send_email_called subject body,
             Stderr ''Missing email/SMTP env vars; cannot send.''], Inr ())
         \<and> filter is_smtp (fst (send_email cfg mail subject body)) = []"
  using assms by (auto simp add: send_email_def io_bind_def print_err_def)

theorem send_email_skipped_witness:
  "TO_EMAIL default_config = []
   \<and> send_email default_config Mail_ok ''s'' ''b'' =
       ([Send_email_called ''s'' ''b'',
         Stderr ''Missing email/SMTP env vars; cannot send.''], Inr ())
   \<and> filter is_smtp (fst (send_email default_config Mail_ok ''s'' ''b'')) = []"
  using send_email_skipped [of default_config Mail_ok "''s''" "''b''"]
  by (simp add: default_config_def)

section \<open>Facts about the effects\<close>

lemma fst_io_bind:
  "fst (io_bind m f) = (case snd m of Inl e \<Rightarrow> fst m | Inr x \<Rightarrow> fst m @ fst (f x))"
  by (cases m) (auto simp: io_bind_def split: sum.splits prod.splits)

lemma email_attempts_append:
  "email_attempts (xs @ ys) = email_attempts xs @ email_attempts ys"
  by (induction xs rule: email_attempts.induct) simp_all

lemma get_open_position_qty_events:
  "fst (get_open_position_qty cfg symbol http) =
     [Http_get (rstrip_slash (ALPACA_BASE_URL cfg) @ ''/v2/positions/'' @ symbol)
        (alpaca_headers cfg)]"
  by (cases http) (simp_all add: get_open_position_qty_def alpaca_get_def split: option.splits)

lemma send_email_attempts:
  "email_attempts (fst (send_email cfg mail subject body)) = [(subject, body)]"
  by (cases mail) (simp_all add: send_email_def io_bind_def print_err_def Let_def)

section \<open>Evaluations at concrete inputs\<close>


lemma round_double_5: "round_double 5 = Some 5"
  by (simp add: round_double_def floor_log2_def pow2_def round_half_even_def
      bit_length.simps Let_def)

lemma py_float_str_0: "py_float_str ''0'' = Inr (Finite 0)"
  by (simp add: py_float_str_def strip_def is_space_def drop_underscores_def lower_def
      lower_char_def parse_decimal_def parse_exponent_def is_digit_def digits_val_def
      digit_val_def pow10_def round_double_def)

lemma py_float_str_5: "py_float_str ''5'' = Inr (Finite 5)"
  by (simp add: py_float_str_def strip_def is_space_def drop_underscores_def lower_def
      lower_char_def parse_decimal_def parse_exponent_def is_digit_def digits_val_def
      digit_val_def pow10_def round_double_5)


lemma default_window:
  "hhmm_to_minutes ''14:35'' = Inr 875" "hhmm_to_minutes ''16:00'' = Inr 960"
  using hhmm_to_minutes_digits [of "''14''" "''35''"] hhmm_to_minutes_digits [of "''16''" "''00''"]
  by (simp_all add: digit_string_def is_digit_def digits_val_def digit_val_def)

lemma in_window_default_1555:
  "in_window_utc default_config \<lparr>hour = 15, minute = 55\<rparr> = Inr True"
  by (simp add: in_window_utc_def default_config_def default_window)

lemma upper_DRY_RUN: "upper ''DRY_RUN'' = ''DRY_RUN''"
  by (simp add: upper_def upper_char_def)

lemma default_url:
  "rstrip_slash (ALPACA_BASE_URL default_config) @ ''/v2/positions/'' @ SYMBOL default_config =
     ''https://paper-api.alpaca.markets/v2/positions/SPY''"
  by (simp add: rstrip_slash_def default_config_def)

lemma qty_5_response:
  "snd (get_open_position_qty cfg symbol (Response status (Some (JObj [(''qty'', JStr ''5'')])))) =
     (if 400 \<le> status \<and> status < 600
      then (if status = 404 then Inr 0 else Inl (HTTPError (Some status)))
      else Inr 5)"
  by (simp add: get_open_position_qty_def alpaca_get_def py_float_def py_float_str_5
      py_int_of_float_def)


lemma str_int_5: "str_int 5 = ''5''"
  by code_simp

section \<open>Decision step\<close>

lemma dry_run_sell_attempts:
  assumes "upper (MODE cfg) = ''DRY_RUN''" "in_window_utc cfg dt = Inr True" "minute dt = 55"
    and "snd (get_open_position_qty cfg (SYMBOL cfg) http) = Inr q" "0 < q"
  shows "email_attempts (fst (decide_and_notify cfg dt http mail)) =
           [sell_alert cfg q ''DRY_RUN exit'']"
proof -
  obtain evs where g: "get_open_position_qty cfg (SYMBOL cfg) http = (evs, Inr q)"
    using assms(4) by (cases "get_open_position_qty cfg (SYMBOL cfg) http") simp
  have evs: "email_attempts evs = []"
    using get_open_position_qty_events [of cfg "SYMBOL cfg" http] g by simp
  obtain subj body where sa: "sell_alert cfg q ''DRY_RUN exit'' = (subj, body)"
    by (cases "sell_alert cfg q ''DRY_RUN exit''")
  have "decide_and_notify cfg dt http mail =
          io_bind (evs, Inr q) (\<lambda>_. io_bind (send_email cfg mail subj body)
            (\<lambda>_. print_out ''Sent DRY_RUN SELL.''))"
    using assms g sa by (simp add: decide_and_notify_def io_bind_def)
  then show ?thesis
    using send_email_attempts [of cfg mail subj body]
    by (cases "snd (send_email cfg mail subj body)")
       (simp_all add: fst_io_bind email_attempts_append evs sa print_out_def)
qed

lemma sell_body_contains:
  "sublist (''Qty: '' @ str_int q) (snd (sell_alert cfg q reason))"
  "sublist (''Reason: '' @ reason) (snd (sell_alert cfg q reason))"
proof -
  have "snd (sell_alert cfg q reason) =
          (''SELL '' @ SYMBOL cfg @ '' NOW\<newline>'') @ (''Qty: '' @ str_int q)
          @ (''\<newline>Reason: '' @ reason @ ''\<newline>\<newline>Open Alpaca and SELL immediately.\<newline>'')"
    by (simp add: sell_alert_def)
  then show "sublist (''Qty: '' @ str_int q) (snd (sell_alert cfg q reason))"
    unfolding sublist_def by blast
  have "snd (sell_alert cfg q reason) =
          (''SELL '' @ SYMBOL cfg @ '' NOW\<newline>Qty: '' @ str_int q @ ''\<newline>'')
          @ (''Reason: '' @ reason)
          @ ''\<newline>\<newline>Open Alpaca and SELL immediately.\<newline>''"
    by (simp add: sell_alert_def)
  then show "sublist (''Reason: '' @ reason) (snd (sell_alert cfg q reason))"
    unfolding sublist_def by blast
qed

text \<open>
  Claim C3 (as amended). In test mode (\<open>MODE\<close> upper-cased is \<open>DRY_RUN\<close>), inside the
  window, at minute 55 and with fetched quantity 5, exactly one alert is attempted: the
  SELL alert, with subject "SELL SPY (dash) ACTION REQUIRED" and a body containing
  "Qty: 5" and "Reason: DRY_RUN exit". The reason the program writes is "DRY_RUN exit";
  the body does not contain "Reason: test exit".
\<close>

theorem dry_run_sell_alert:
  assumes "upper (MODE cfg) = ''DRY_RUN''" "in_window_utc cfg dt = Inr True" "minute dt = 55"
    and "snd (get_open_position_qty cfg (SYMBOL cfg) http) = Inr 5"
  shows "email_attempts (fst (decide_and_notify cfg dt http mail)) =
           [(''SELL SPY '' @ em_dash @ '' ACTION REQUIRED'', snd (sell_alert cfg 5 ''DRY_RUN exit''))]
       \<and> sublist ''Qty: 5'' (snd (sell_alert cfg 5 ''DRY_RUN exit''))
       \<and> sublist ''Reason: DRY_RUN exit'' (snd (sell_alert cfg 5 ''DRY_RUN exit''))"
proof -
  have "email_attempts (fst (decide_and_notify cfg dt http mail)) =
          [sell_alert cfg 5 ''DRY_RUN exit'']"
    using assms by (intro dry_run_sell_attempts) simp_all
  moreover have "fst (sell_alert cfg 5 ''DRY_RUN exit'') = ''SELL SPY '' @ em_dash @ '' ACTION REQUIRED''"
    by (simp add: sell_alert_def)
  ultimately have "email_attempts (fst (decide_and_notify cfg dt http mail)) =
           [(''SELL SPY '' @ em_dash @ '' ACTION REQUIRED'', snd (sell_alert cfg 5 ''DRY_RUN exit''))]"
    by (metis prod.collapse)
  moreover have "sublist ''Qty: 5'' (snd (sell_alert cfg 5 ''DRY_RUN exit''))"
    using sell_body_contains(1) [of 5 cfg "''DRY_RUN exit''"] by (simp add: str_int_5)
  moreover have "sublist ''Reason: DRY_RUN exit'' (snd (sell_alert cfg 5 ''DRY_RUN exit''))"
    using sell_body_contains(2) [of "''DRY_RUN exit''" cfg 5] by simp
  ultimately show ?thesis by blast
qed


theorem dry_run_sell_alert_witness:
  "upper (MODE default_config) = ''DRY_RUN''
   \<and> in_window_utc default_config \<lparr>hour = 15, minute = 55\<rparr> = Inr True
   \<and> minute \<lparr>hour = 15, minute = 55\<rparr> = 55
   \<and> snd (get_open_position_qty default_config (SYMBOL default_config)
            (Response 200 (Some (JObj [(''qty'', JStr ''5'')])))) = Inr 5
   \<and> email_attempts (fst (decide_and_notify default_config \<lparr>hour = 15, minute = 55\<rparr>
        (Response 200 (Some (JObj [(''qty'', JStr ''5'')]))) Mail_ok)) =
       [(''SELL SPY '' @ em_dash @ '' ACTION REQUIRED'',
         ''SELL SPY NOW\<newline>Qty: 5\<newline>Reason: DRY_RUN exit\<newline>\<newline>Open Alpaca and SELL immediately.\<newline>'')]"
proof -
  have m: "upper (MODE default_config) = ''DRY_RUN''"
    by (simp add: default_config_def upper_DRY_RUN)
  have t: "minute \<lparr>hour = 15, minute = 55\<rparr> = 55" by simp
  have q: "snd (get_open_position_qty default_config (SYMBOL default_config)
            (Response 200 (Some (JObj [(''qty'', JStr ''5'')])))) = Inr 5"
    by (simp add: qty_5_response)
  have b: "snd (sell_alert default_config 5 ''DRY_RUN exit'') =
     ''SELL SPY NOW\<newline>Qty: 5\<newline>Reason: DRY_RUN exit\<newline>\<newline>Open Alpaca and SELL immediately.\<newline>''"
    by (simp add: sell_alert_def default_config_def str_int_5)
  show ?thesis
    using dry_run_sell_alert [OF m in_window_default_1555 t q, of Mail_ok] m q
    by (simp add: in_window_default_1555 b)
qed

theorem dry_run_sell_reason_counterexample:
  "upper (MODE default_config) = ''DRY_RUN''
   \<and> in_window_utc default_config \<lparr>hour = 15, minute = 55\<rparr> = Inr True
   \<and> snd (get_open_position_qty default_config (SYMBOL default_config)
            (Response 200 (Some (JObj [(''qty'', JStr ''5'')])))) = Inr 5
   \<and> email_attempts (fst (decide_and_notify default_config \<lparr>hour = 15, minute = 55\<rparr>
        (Response 200 (Some (JObj [(''qty'', JStr ''5'')]))) Mail_ok)) =
       [(''SELL SPY '' @ em_dash @ '' ACTION REQUIRED'',
         ''SELL SPY NOW\<newline>Qty: 5\<newline>Reason: DRY_RUN exit\<newline>\<newline>Open Alpaca and SELL immediately.\<newline>'')]
   \<and> \<not> sublist ''Reason: test exit''
         ''SELL SPY NOW\<newline>Qty: 5\<newline>Reason: DRY_RUN exit\<newline>\<newline>Open Alpaca and SELL immediately.\<newline>''"
proof -
  have m: "upper (MODE default_config) = ''DRY_RUN''"
    by (simp add: default_config_def upper_DRY_RUN)
  have q: "snd (get_open_position_qty default_config (SYMBOL default_config)
            (Response 200 (Some (JObj [(''qty'', JStr ''5'')])))) = Inr 5"
    by (simp add: qty_5_response)
  have a: "sell_alert default_config 5 ''DRY_RUN exit'' =
     (''SELL SPY '' @ em_dash @ '' ACTION REQUIRED'',
      ''SELL SPY NOW\<newline>Qty: 5\<newline>Reason: DRY_RUN exit\<newline>\<newline>Open Alpaca and SELL immediately.\<newline>'')"
    by (simp add: sell_alert_def default_config_def str_int_5)
  have n: "\<not> sublist ''Reason: test exit''
         ''SELL SPY NOW\<newline>Qty: 5\<newline>Reason: DRY_RUN exit\<newline>\<newline>Open Alpaca and SELL immediately.\<newline>''"
    by code_simp
  show ?thesis
    using dry_run_sell_attempts [OF m in_window_default_1555 _ q, of Mail_ok] m q n
    by (simp add: in_window_default_1555 a)
qed

section \<open>Decision step: live mode\<close>

text \<open>
  Claim C5. In live mode (\<open>MODE\<close> upper-cased differs from \<open>DRY_RUN\<close>) a run attempts no
  email, whatever the time, the answer of the brokerage and the quantity: no call of
  \<open>send_email\<close> and no operation of a mail session. Inside the window, with a quantity
  fetched, the run is exactly the GET followed by the line "LIVE: strategy not enabled;
  no alerts." on standard output, and it returns normally.
\<close>

theorem live_mode_no_email:
  assumes "upper (MODE cfg) \<noteq> ''DRY_RUN''"
  shows "email_attempts (fst (decide_and_notify cfg dt http mail)) = []
       \<and> filter is_smtp (fst (decide_and_notify cfg dt http mail)) = []
       \<and> (in_window_utc cfg dt = Inr True
            \<and> snd (get_open_position_qty cfg (SYMBOL cfg) http) = Inr qty
          \<longrightarrow> decide_and_notify cfg dt http mail =
                ([Http_get (rstrip_slash (ALPACA_BASE_URL cfg) @ ''/v2/positions/'' @ SYMBOL cfg)
                    (alpaca_headers cfg),
                  Stdout ''LIVE: strategy not enabled; no alerts.''], Inr ()))"
proof -
  obtain evs r where g: "get_open_position_qty cfg (SYMBOL cfg) http = (evs, r)"
    by (cases "get_open_position_qty cfg (SYMBOL cfg) http")
  have evs: "evs = [Http_get (rstrip_slash (ALPACA_BASE_URL cfg) @ ''/v2/positions/'' @ SYMBOL cfg)
        (alpaca_headers cfg)]"
    using get_open_position_qty_events [of cfg "SYMBOL cfg" http] g by simp
  show ?thesis
    using assms g
    by (cases r; cases "in_window_utc cfg dt")
       (auto simp add: decide_and_notify_def io_bind_def print_out_def evs)
qed

theorem live_mode_no_email_witness:
  "upper (MODE (default_config\<lparr>MODE := ''LIVE''\<rparr>)) \<noteq> ''DRY_RUN''
   \<and> in_window_utc (default_config\<lparr>MODE := ''LIVE''\<rparr>) \<lparr>hour = 15, minute = 55\<rparr> = Inr True
   \<and> snd (get_open_position_qty (default_config\<lparr>MODE := ''LIVE''\<rparr>)
            (SYMBOL (default_config\<lparr>MODE := ''LIVE''\<rparr>))
            (Response 200 (Some (JObj [(''qty'', JStr ''5'')])))) = Inr 5
   \<and> decide_and_notify (default_config\<lparr>MODE := ''LIVE''\<rparr>) \<lparr>hour = 15, minute = 55\<rparr>
        (Response 200 (Some (JObj [(''qty'', JStr ''5'')]))) Mail_ok =
       ([Http_get ''https://paper-api.alpaca.markets/v2/positions/SPY''
           [(''APCA-API-KEY-ID'', []), (''APCA-API-SECRET-KEY'', [])],
         Stdout ''LIVE: strategy not enabled; no alerts.''], Inr ())
   \<and> email_attempts (fst (decide_and_notify (default_config\<lparr>MODE := ''LIVE''\<rparr>)
        \<lparr>hour = 15, minute = 55\<rparr> (Response 200 (Some (JObj [(''qty'', JStr ''5'')]))) Mail_ok)) = []"
proof -
  let ?c = "default_config\<lparr>MODE := ''LIVE''\<rparr>"
  have m: "upper (MODE ?c) \<noteq> ''DRY_RUN''"
    by (simp add: upper_def)
  have w: "in_window_utc ?c \<lparr>hour = 15, minute = 55\<rparr> = Inr True"
    by (simp add: in_window_utc_def default_config_def default_window)
  have q: "snd (get_open_position_qty ?c (SYMBOL ?c)
            (Response 200 (Some (JObj [(''qty'', JStr ''5'')])))) = Inr 5"
    by (simp add: qty_5_response)
  have u: "rstrip_slash (ALPACA_BASE_URL ?c) @ ''/v2/positions/'' @ SYMBOL ?c =
     ''https://paper-api.alpaca.markets/v2/positions/SPY''"
    using default_url by simp
  have h: "alpaca_headers ?c = [(''APCA-API-KEY-ID'', []), (''APCA-API-SECRET-KEY'', [])]"
    by (simp add: alpaca_headers_def default_config_def)
  show ?thesis
    using live_mode_no_email [OF m, of "\<lparr>hour = 15, minute = 55\<rparr>"
        "Response 200 (Some (JObj [(''qty'', JStr ''5'')]))" Mail_ok 5] m w q u h
    by simp
qed

section \<open>Position fetcher: no qty field\<close>

text \<open>
  Claim C9. For every response with a 2xx status whose JSON object has no \<open>qty\<close> key,
  \<open>get_open_position_qty\<close> returns 0 and does not raise: the lookup falls back to the
  string "0", which converts to 0.
\<close>

theorem qty_missing_is_zero:
  assumes "200 \<le> status" "status < 300" "map_of items ''qty'' = None"
  shows "get_open_position_qty cfg symbol (Response status (Some (JObj items))) =
     ([Http_get (rstrip_slash (ALPACA_BASE_URL cfg) @ ''/v2/positions/'' @ symbol)
         (alpaca_headers cfg)], Inr 0)"
  using assms
  by (simp add: get_open_position_qty_def alpaca_get_def py_float_def py_float_str_0
      py_int_of_float_def)

theorem qty_missing_is_zero_witness:
  "(200::nat) \<le> 200 \<and> (200::nat) < 300 \<and> map_of [(''symbol'', JStr ''SPY'')] ''qty'' = None
   \<and> get_open_position_qty default_config ''SPY''
        (Response 200 (Some (JObj [(''symbol'', JStr ''SPY'')]))) =
       ([Http_get ''https://paper-api.alpaca.markets/v2/positions/SPY''
           [(''APCA-API-KEY-ID'', []), (''APCA-API-SECRET-KEY'', [])]], Inr 0)"
  using qty_missing_is_zero [of 200 "[(''symbol'', JStr ''SPY'')]" default_config "''SPY''"]
    default_url
  by (simp add: alpaca_headers_def default_config_def)

section \<open>Position fetcher: error statuses\<close>

text \<open>
  Claim C6 (as amended). For every response whose status is 500, or any other status from
  400 to 599 except 404, \<open>get_open_position_qty\<close> raises HTTPError, and a run that reached
  the fetch (the time is inside the window) aborts with that error after the GET alone: no
  alert is attempted and no mail session is opened. A status outside 400..599 does not
  raise by itself, so the statement does not extend to every non-2xx status: a response
  of status 300 with a JSON object is read like a successful one.
\<close>

theorem http_error_aborts_run:
  assumes "400 \<le> status" "status < 600" "status \<noteq> 404"
    and "in_window_utc cfg dt = Inr True"
  shows "snd (get_open_position_qty cfg (SYMBOL cfg) (Response status body)) =
           Inl (HTTPError (Some status))
       \<and> decide_and_notify cfg dt (Response status body) mail =
           ([Http_get (rstrip_slash (ALPACA_BASE_URL cfg) @ ''/v2/positions/'' @ SYMBOL cfg)
               (alpaca_headers cfg)], Inl (HTTPError (Some status)))
       \<and> email_attempts (fst (decide_and_notify cfg dt (Response status body) mail)) = []
       \<and> filter is_smtp (fst (decide_and_notify cfg dt (Response status body) mail)) = []"
  using assms
  by (simp add: decide_and_notify_def get_open_position_qty_def alpaca_get_def io_bind_def)

theorem http_error_aborts_run_witness:
  "(400::nat) \<le> 500 \<and> (500::nat) < 600 \<and> (500::nat) \<noteq> 404
   \<and> in_window_utc default_config \<lparr>hour = 15, minute = 55\<rparr> = Inr True
   \<and> snd (get_open_position_qty default_config (SYMBOL default_config) (Response 500 None)) =
       Inl (HTTPError (Some 500))
   \<and> decide_and_notify default_config \<lparr>hour = 15, minute = 55\<rparr> (Response 500 None) Mail_ok =
       ([Http_get ''https://paper-api.alpaca.markets/v2/positions/SPY''
           [(''APCA-API-KEY-ID'', []), (''APCA-API-SECRET-KEY'', [])]],
        Inl (HTTPError (Some 500)))
   \<and> email_attempts (fst (decide_and_notify default_config \<lparr>hour = 15, minute = 55\<rparr>
        (Response 500 None) Mail_ok)) = []"
proof -
  have h: "alpaca_headers default_config =
      [(''APCA-API-KEY-ID'', []), (''APCA-API-SECRET-KEY'', [])]"
    by (simp add: alpaca_headers_def default_config_def)
  show ?thesis
    using http_error_aborts_run [OF _ _ _ in_window_default_1555, of 500 None Mail_ok]
      in_window_default_1555 default_url h
    by simp
qed

theorem non_2xx_status_counterexample:
  "\<not> (200 \<le> (300::nat) \<and> (300::nat) < 300) \<and> (300::nat) \<noteq> 404
   \<and> in_window_utc default_config \<lparr>hour = 15, minute = 55\<rparr> = Inr True
   \<and> snd (get_open_position_qty default_config (SYMBOL default_config)
            (Response 300 (Some (JObj [(''qty'', JStr ''5'')])))) = Inr 5
   \<and> email_attempts (fst (decide_and_notify default_config \<lparr>hour = 15, minute = 55\<rparr>
        (Response 300 (Some (JObj [(''qty'', JStr ''5'')]))) Mail_ok)) =
       [sell_alert default_config 5 ''DRY_RUN exit'']"
proof -
  have m: "upper (MODE default_config) = ''DRY_RUN''"
    by (simp add: default_config_def upper_DRY_RUN)
  have q: "snd (get_open_position_qty default_config (SYMBOL default_config)
            (Response 300 (Some (JObj [(''qty'', JStr ''5'')])))) = Inr 5"
    by (simp add: qty_5_response)
  show ?thesis
    using dry_run_sell_attempts [OF m in_window_default_1555 _ q, of Mail_ok] q
    by (simp add: in_window_default_1555)
qed

section \<open>Position fetcher: sign of the quantity\<close>







section \<open>Dead configuration\<close>









section \<open>Boundaries out of range\<close>











end
